theory Spec2Isabelle
  imports Complex_Main "HOL-Library.Sublist"
begin

section \<open>Mass-Mailer-CLI: the wizard's session, events and commands\<close>

text \<open>
  The program is a terminal wizard built on an event loop: the loop hands every event
  (\<open>tea.Msg\<close>) to \<open>model.Update\<close>, which returns the updated session and a command
  (\<open>tea.Cmd\<close>) for the loop to run. This theory embeds \<open>src/main.go\<close>:
  \<open>initialModel\<close>, \<open>Update\<close>, the four screen handlers, \<open>tickCmd\<close> and \<open>main\<close>;
  the functions of the earlier variant \<open>src/unnamed/part_000\<close> that differ come after.

  The widgets (menu list, file pickers, text input, progress bar), the key type and the event
  loop come from libraries outside the repository. Their states are type parameters
  (\<open>'l\<close>, \<open>'f\<close>, \<open>'t\<close>, \<open>'p\<close>) and their operations are the fields of the record
  \<open>bubbles\<close>, which every function of the program takes as its first argument; a theorem
  stated for an arbitrary \<open>B\<close> holds whatever the widgets do.
\<close>

subsection \<open>Events\<close>

text \<open>
  \<open>tea.KeyMsg\<close>: the program reads a key either through \<open>msg.String()\<close>
  (\<open>keyString\<close>, the library's name for the key: \<open>''enter''\<close>, \<open>''q''\<close>, \<open>''ctrl+c''\<close>,
  \<open>''alt+enter''\<close>, the typed runes, ...) or through \<open>msg.Type\<close> (\<open>keyType\<close>). Only
  \<open>tea.KeyEnter\<close> is ever compared with \<open>msg.Type\<close>.
\<close>

datatype KeyType = KeyEnter | KeyRunes | KeyOther nat

record Key =
  keyType :: KeyType
  keyString :: string

text \<open>
  The events the program distinguishes by type: \<open>tea.WindowSizeMsg\<close> (width, height),
  \<open>tea.KeyMsg\<close>, \<open>tea.MouseMsg\<close>, the program's own \<open>exitMsg\<close> (an \<open>int\<close>) and
  \<open>tickMsg\<close> (a \<open>time.Time\<close>, in nanoseconds), \<open>progress.FrameMsg\<close>, and any other
  message a widget sends to itself (\<open>OtherMsg\<close>).
\<close>

datatype msg =
    WindowSizeMsg int int
  | KeyMsg Key
  | MouseMsg
  | exitMsg int
  | tickMsg int
  | FrameMsg nat
  | OtherMsg nat

subsection \<open>Commands\<close>

text \<open>
  \<open>tea.Cmd\<close>: \<open>nil\<close>, \<open>tea.Quit\<close>, \<open>tea.Tick d fn\<close> (after \<open>d\<close> nanoseconds the loop
  delivers \<open>fn t\<close>), \<open>tea.Batch\<close>, \<open>textinput.Blink\<close>, and the commands widgets return
  (\<open>WidgetCmd\<close>).
\<close>

datatype cmd =
    NilCmd
  | Quit
  | Tick int "int \<Rightarrow> msg"
  | Batch "cmd list"
  | Blink
  | WidgetCmd nat

subsection \<open>Durations and the clock\<close>

text \<open>
  \<open>time.Duration\<close> is a count of nanoseconds in an \<open>int64\<close>; a \<open>time.Time\<close> is modelled
  as the nanoseconds since the zero \<open>Time\<close>, so \<open>IsZero\<close> is equality with 0.
  \<open>t.Sub(u)\<close> saturates at the largest and smallest \<open>Duration\<close>.
\<close>

definition Millisecond :: int where
  "Millisecond = 1000000"

definition Second :: int where
  "Second = 1000 * Millisecond"

definition maxDuration :: int where
  "maxDuration = 2 ^ 63 - 1"

definition minDuration :: int where
  "minDuration = - (2 ^ 63)"

definition IsZero :: "int \<Rightarrow> bool" where
  "IsZero t = (t = 0)"

definition Sub :: "int \<Rightarrow> int \<Rightarrow> int" where
  "Sub t u =
     (let d = t - u in
      if d > maxDuration then maxDuration
      else if d < minDuration then minDuration
      else d)"

text \<open>
  One call of \<open>Update\<close> reads the clock at most twice: \<open>time.Now()\<close> when the progress
  screen records its start (\<open>nowStart\<close>, line 216), and the \<open>time.Now()\<close> inside
  \<open>time.Since\<close> (\<open>nowSince\<close>, lines 162 and 218). The two readings are arguments.
\<close>

record clock =
  nowStart :: int
  nowSince :: int

definition Since :: "clock \<Rightarrow> int \<Rightarrow> int" where
  "Since clk t = Sub (nowSince clk) t"

subsection \<open>Widgets\<close>

record item =
  title :: string
  description :: string

text \<open>
  \<open>filepicker.Model\<close> and \<open>progress.Model\<close>: the fields the program reads or writes,
  and the rest of the widget's state.
\<close>

record 'f filepicker =
  AllowedTypes :: "string list"
  CurrentDirectory :: string
  pickerState :: 'f

record 'p progress =
  Width :: int
  barState :: 'p

text \<open>
  The library operations the program calls. \<open>list_SelectedItem\<close> is
  \<open>m.list.SelectedItem().(item)\<close>: \<open>None\<close> when the type assertion fails.
  Methods with a pointer receiver (\<open>SetSize\<close>, \<open>CursorUp\<close>, \<open>CursorDown\<close>,
  \<open>SetPercent\<close>) return the widget they changed.
\<close>

record ('l, 'f, 't, 'p) bubbles =
  style_GetFrameSize :: "int \<times> int"
  list_SetSize :: "int \<Rightarrow> int \<Rightarrow> 'l \<Rightarrow> 'l"
  list_CursorUp :: "'l \<Rightarrow> 'l"
  list_CursorDown :: "'l \<Rightarrow> 'l"
  list_SelectedItem :: "'l \<Rightarrow> item option"
  list_Update :: "msg \<Rightarrow> 'l \<Rightarrow> 'l \<times> cmd"
  filepicker_Init :: "'f filepicker \<Rightarrow> cmd"
  filepicker_Update :: "msg \<Rightarrow> 'f filepicker \<Rightarrow> 'f filepicker \<times> cmd"
  filepicker_DidSelectFile :: "msg \<Rightarrow> 'f filepicker \<Rightarrow> bool \<times> string"
  textinput_Update :: "msg \<Rightarrow> 't \<Rightarrow> 't \<times> cmd"
  textinput_Value :: "'t \<Rightarrow> string"
  progress_SetPercent :: "real \<Rightarrow> 'p progress \<Rightarrow> 'p progress \<times> cmd"
  progress_Update :: "msg \<Rightarrow> 'p progress \<Rightarrow> 'p progress \<times> cmd"

subsection \<open>The session\<close>

datatype view =
    homeView
  | fileSelectionView
  | subjectInputView
  | confirmationView
  | progressView
  | quitView

text \<open>
  \<open>type model struct\<close>. The menu list is the field \<open>list\<close> of the source (\<open>menu\<close> here).
  The fields \<open>err\<close>, \<open>keys\<close>, \<open>selectedFile\<close> and \<open>msg\<close> are left out: no function
  of the program assigns them after \<open>initialModel\<close>, and only rendering reads one.
  \<open>cursor\<close> and \<open>tag\<close> are Go \<open>int\<close>s; they are incremented once per key press and
  stay far from the machine bound.
\<close>

record ('l, 'f, 't, 'p) model =
  menu :: 'l
  csvFilepicker :: "'f filepicker"
  htmlFilepicker :: "'f filepicker"
  textInput :: 't
  progress :: "'p progress"
  currentView :: view
  csvFilePath :: string
  htmlFilePath :: string
  subject :: string
  confirmed :: bool
  quitting :: bool
  cursor :: int
  startTime :: int
  tag :: int
  quitTimer :: int
  windowSize :: "int \<times> int"

definition padding :: int where
  "padding = 2"

definition maxWidth :: int where
  "maxWidth = 100"

definition debounceDuration :: int where
  "debounceDuration = Second * 5"

text \<open>
  \<open>initialModel\<close>: the widgets it builds (\<open>list.New\<close>, \<open>filepicker.New\<close>,
  \<open>textinput.New\<close>, \<open>progress.New\<close>) and the home directory are arguments; every field
  the composite literal does not name has its zero value.
\<close>

definition initialModel ::
  "'l \<Rightarrow> 'f \<Rightarrow> 'f \<Rightarrow> 't \<Rightarrow> 'p progress \<Rightarrow> string \<Rightarrow> ('l, 'f, 't, 'p) model" where
  "initialModel homeList csvFp htmlFp ti pr currentDir =
     \<lparr> menu = homeList,
       csvFilepicker =
         \<lparr> AllowedTypes = [''.csv''], CurrentDirectory = currentDir, pickerState = csvFp \<rparr>,
       htmlFilepicker =
         \<lparr> AllowedTypes = [''.html''], CurrentDirectory = currentDir, pickerState = htmlFp \<rparr>,
       textInput = ti,
       progress = pr,
       currentView = homeView,
       csvFilePath = [],
       htmlFilePath = [],
       subject = [],
       confirmed = False,
       quitting = False,
       cursor = 0,
       startTime = 0,
       tag = 0,
       quitTimer = 0,
       windowSize = (0, 0) \<rparr>"

subsection \<open>The screen handlers\<close>

definition tickCmd :: cmd where
  "tickCmd = Tick (Millisecond * 100) (\<lambda>t. tickMsg t)"

text \<open>\<open>updateProgress\<close> (lines 205-233).\<close>

definition updateProgress ::
  "('l, 'f, 't, 'p) bubbles \<Rightarrow> clock \<Rightarrow> msg \<Rightarrow> ('l, 'f, 't, 'p) model
     \<Rightarrow> ('l, 'f, 't, 'p) model \<times> cmd" where
  "updateProgress B clk ms m =
     (case ms of
        WindowSizeMsg w h \<Rightarrow>
          (let wd = w - padding * 2 - 4;
               wd' = (if wd > maxWidth then maxWidth else wd)
           in (m\<lparr>progress := (progress m)\<lparr>Width := wd'\<rparr>\<rparr>, NilCmd))
      | tickMsg t \<Rightarrow>
          (let m1 = (if IsZero (startTime m) then m\<lparr>startTime := nowStart clk\<rparr> else m);
               elapsed = Since clk (startTime m1)
           in if elapsed \<ge> 5 * Second then (m1, Quit)
              else
                (let progressNum = real_of_int elapsed / (5 * real_of_int Second);
                     (pr, c) = progress_SetPercent B progressNum (progress m1)
                 in (m1\<lparr>progress := pr\<rparr>, Batch [tickCmd, c])))
      | FrameMsg n \<Rightarrow>
          (let (pr, c) = progress_Update B ms (progress m)
           in (m\<lparr>progress := pr\<rparr>, c))
      | _ \<Rightarrow> (m, NilCmd))"

text \<open>
  \<open>updateFileSelection\<close> (lines 235-279). \<open>forwardToPicker\<close> is the statement the
  \<open>tab\<close> case, the \<open>default\<close> key case and the \<open>default\<close> type case all consist of:
  the event goes to the CSV picker while \<open>csvFilePath\<close> is empty and to the HTML picker
  afterwards, and the function returns with the picker's command.
\<close>

definition forwardToPicker ::
  "('l, 'f, 't, 'p) bubbles \<Rightarrow> msg \<Rightarrow> ('l, 'f, 't, 'p) model
     \<Rightarrow> ('l, 'f, 't, 'p) model \<times> cmd" where
  "forwardToPicker B ms m =
     (if csvFilePath m = [] then
        (let (fp, c) = filepicker_Update B ms (csvFilepicker m)
         in (m\<lparr>csvFilepicker := fp\<rparr>, c))
      else
        (let (fp, c) = filepicker_Update B ms (htmlFilepicker m)
         in (m\<lparr>htmlFilepicker := fp\<rparr>, c)))"

definition updateFileSelection ::
  "('l, 'f, 't, 'p) bubbles \<Rightarrow> msg \<Rightarrow> ('l, 'f, 't, 'p) model
     \<Rightarrow> ('l, 'f, 't, 'p) model \<times> cmd" where
  "updateFileSelection B ms m =
     (case ms of
        KeyMsg k \<Rightarrow>
          (if keyString k = ''tab'' then forwardToPicker B ms m
           else if keyString k = ''enter'' then
             (if csvFilePath m = [] then
                (let (fp, c) = filepicker_Update B ms (csvFilepicker m);
                     m1 = m\<lparr>csvFilepicker := fp\<rparr>;
                     (selected, path) = filepicker_DidSelectFile B ms (csvFilepicker m1)
                 in if selected then
                      (m1\<lparr>csvFilePath := path,
                          htmlFilepicker := (htmlFilepicker m1)
                            \<lparr>CurrentDirectory := CurrentDirectory (csvFilepicker m1)\<rparr>\<rparr>,
                       NilCmd)
                    else (m1, c))
              else
                (let (fp, c) = filepicker_Update B ms (htmlFilepicker m);
                     m1 = m\<lparr>htmlFilepicker := fp\<rparr>;
                     (selected, path) = filepicker_DidSelectFile B ms (htmlFilepicker m1)
                 in if selected then
                      (m1\<lparr>htmlFilePath := path, currentView := subjectInputView\<rparr>, Blink)
                    else (m1, c)))
           else forwardToPicker B ms m)
      | _ \<Rightarrow> forwardToPicker B ms m)"

text \<open>\<open>updateSubjectInput\<close> (lines 281-295).\<close>

definition updateSubjectInput ::
  "('l, 'f, 't, 'p) bubbles \<Rightarrow> msg \<Rightarrow> ('l, 'f, 't, 'p) model
     \<Rightarrow> ('l, 'f, 't, 'p) model \<times> cmd" where
  "updateSubjectInput B ms m =
     (let (ti, c) = textinput_Update B ms (textInput m);
          m1 = m\<lparr>textInput := ti\<rparr>
      in case ms of
           KeyMsg k \<Rightarrow>
             (if keyType k = KeyEnter then
                (m1\<lparr>subject := textinput_Value B (textInput m1),
                    currentView := confirmationView\<rparr>, c)
              else (m1, c))
         | _ \<Rightarrow> (m1, c))"

text \<open>\<open>updateConfirmation\<close> (lines 297-322).\<close>

definition updateConfirmation ::
  "msg \<Rightarrow> ('l, 'f, 't, 'p) model \<Rightarrow> ('l, 'f, 't, 'p) model \<times> cmd" where
  "updateConfirmation ms m =
     (case ms of
        KeyMsg k \<Rightarrow>
          (if keyString k = ''down'' \<or> keyString k = ''j'' then
             (let m1 = m\<lparr>cursor := cursor m + 1\<rparr>
              in ((if cursor m1 > 1 then m1\<lparr>cursor := 0\<rparr> else m1), NilCmd))
           else if keyString k = ''up'' \<or> keyString k = ''k'' then
             (let m1 = m\<lparr>cursor := cursor m - 1\<rparr>
              in ((if cursor m1 < 0 then m1\<lparr>cursor := 1\<rparr> else m1), NilCmd))
           else if keyString k = ''enter'' then
             (let m1 = m\<lparr>confirmed := (cursor m = 0)\<rparr>
              in if confirmed m1 then (m1\<lparr>currentView := progressView\<rparr>, tickCmd)
                 else (m1, Quit))
           else (m, NilCmd))
      | _ \<Rightarrow> (m, NilCmd))"

subsection \<open>The dispatcher\<close>

text \<open>
  \<open>model.Update\<close> (lines 134-203) in three parts, in the order the source runs them.
  \<open>Update_tail\<close> is lines 188-202: the menu list sees the event, then the handler of
  the active screen. \<open>Update_quit\<close> is lines 172-176, the quit keys, reached by a key
  event that the switch on the screen (lines 142-170) did not return from.
\<close>

definition Update_tail ::
  "('l, 'f, 't, 'p) bubbles \<Rightarrow> clock \<Rightarrow> msg \<Rightarrow> ('l, 'f, 't, 'p) model
     \<Rightarrow> ('l, 'f, 't, 'p) model \<times> cmd" where
  "Update_tail B clk ms m =
     (let (l, c) = list_Update B ms (menu m);
          m1 = m\<lparr>menu := l\<rparr>
      in case currentView m1 of
           fileSelectionView \<Rightarrow> updateFileSelection B ms m1
         | subjectInputView \<Rightarrow> updateSubjectInput B ms m1
         | confirmationView \<Rightarrow> updateConfirmation ms m1
         | progressView \<Rightarrow> updateProgress B clk ms m1
         | _ \<Rightarrow> (m1, c))"

definition Update_quit ::
  "('l, 'f, 't, 'p) bubbles \<Rightarrow> clock \<Rightarrow> Key \<Rightarrow> ('l, 'f, 't, 'p) model
     \<Rightarrow> ('l, 'f, 't, 'p) model \<times> cmd" where
  "Update_quit B clk k m =
     (if keyString k = ''ctrl+c'' \<or> keyString k = ''q'' then (m\<lparr>quitting := True\<rparr>, Quit)
      else Update_tail B clk (KeyMsg k) m)"

definition Update ::
  "('l, 'f, 't, 'p) bubbles \<Rightarrow> clock \<Rightarrow> msg \<Rightarrow> ('l, 'f, 't, 'p) model
     \<Rightarrow> ('l, 'f, 't, 'p) model \<times> cmd" where
  "Update B clk ms m =
     (case ms of
        WindowSizeMsg w h \<Rightarrow>
          (let (fh, fv) = style_GetFrameSize B;
               m1 = m\<lparr>windowSize := (w, h),
                       menu := list_SetSize B (w - fh) (h - fv) (menu m)\<rparr>
           in Update_tail B clk ms m1)
      | KeyMsg k \<Rightarrow>
          (case currentView m of
             homeView \<Rightarrow>
               (if keyString k = ''up'' \<or> keyString k = ''k'' then
                  Update_quit B clk k (m\<lparr>menu := list_CursorUp B (menu m)\<rparr>)
                else if keyString k = ''down'' \<or> keyString k = ''j'' then
                  Update_quit B clk k (m\<lparr>menu := list_CursorDown B (menu m)\<rparr>)
                else if keyString k = ''enter'' then
                  (case list_SelectedItem B (menu m) of
                     Some selectedItem \<Rightarrow>
                       (if title selectedItem = ''CSV and HTML Upload'' then
                          (m\<lparr>currentView := fileSelectionView\<rparr>,
                           filepicker_Init B (csvFilepicker m))
                        else if title selectedItem = ''Quit'' then
                          (m\<lparr>quitting := True\<rparr>, Quit)
                        else Update_quit B clk k m)
                   | None \<Rightarrow> Update_quit B clk k m)
                else Update_quit B clk k m)
           | quitView \<Rightarrow>
               (if Since clk (quitTimer m) \<ge> 5 * Second then (m, Quit)
                else Update_quit B clk k m)
           | progressView \<Rightarrow>
               (let m1 = m\<lparr>tag := tag m + 1\<rparr>
                in (m1, Tick debounceDuration (\<lambda>_. exitMsg (tag m1))))
           | _ \<Rightarrow> Update_quit B clk k m)
      | MouseMsg \<Rightarrow> (m, NilCmd)
      | exitMsg n \<Rightarrow>
          (if currentView m = progressView \<and> n = tag m then (m\<lparr>quitting := True\<rparr>, Quit)
           else Update_tail B clk ms m)
      | _ \<Rightarrow> Update_tail B clk ms m)"


subsection \<open>The entry point\<close>

text \<open>
  \<open>main\<close> (lines 459-474) after \<open>p.Run()\<close> has returned the final session and an
  error (\<open>None\<close> for \<open>nil\<close>): the text written to standard output and the exit status.
\<close>

definition newline :: string where
  "newline = [CHR 0x0A]"

definition main :: "('l, 'f, 't, 'p) model \<times> string option \<Rightarrow> string \<times> int" where
  "main r =
     (case snd r of
        Some e \<Rightarrow> (''Error: '' @ e, 1)
      | None \<Rightarrow>
          (let finalModel = fst r
           in if confirmed finalModel then
                (''Emails sent using CSV file: '' @ csvFilePath finalModel
                   @ '', HTML template: '' @ htmlFilePath finalModel
                   @ '', and subject: '' @ subject finalModel @ newline, 0)
              else (''Operation cancelled.'' @ newline, 0)))"

subsection \<open>The event loop\<close>

text \<open>
  An event as the loop delivers it: the message, with the clock readings the call of
  \<open>Update\<close> will see.
\<close>

type_synonym event = "clock \<times> msg"

text \<open>The session after a list of events, each handled by \<open>Update\<close> in arrival order.\<close>

fun exec ::
  "('l, 'f, 't, 'p) bubbles \<Rightarrow> ('l, 'f, 't, 'p) model \<Rightarrow> event list
     \<Rightarrow> ('l, 'f, 't, 'p) model" where
  "exec B m [] = m"
| "exec B m (e # es) = exec B (fst (Update B (fst e) (snd e) m)) es"

text \<open>The sessions a list of events leads through, the starting one first.\<close>

fun states ::
  "('l, 'f, 't, 'p) bubbles \<Rightarrow> ('l, 'f, 't, 'p) model \<Rightarrow> event list
     \<Rightarrow> ('l, 'f, 't, 'p) model list" where
  "states B m [] = [m]"
| "states B m (e # es) = m # states B (fst (Update B (fst e) (snd e) m)) es"

text \<open>
  Modelled from the spec: the host event loop (\<open>Program.Run\<close> of the terminal library,
  which is not part of the repository). Events are processed strictly in arrival order, one
  at a time; a handler that returns the quit command asks the loop to stop, and the loop
  then returns the session as that handler left it. \<open>None\<close>: the events ran out and the
  loop is still waiting.
\<close>

fun requestsQuit :: "cmd \<Rightarrow> bool" where
  "requestsQuit Quit = True"
| "requestsQuit (Batch cs) = list_ex requestsQuit cs"
| "requestsQuit _ = False"

fun run ::
  "('l, 'f, 't, 'p) bubbles \<Rightarrow> ('l, 'f, 't, 'p) model \<Rightarrow> event list
     \<Rightarrow> ('l, 'f, 't, 'p) model option" where
  "run B m [] = None"
| "run B m (e # es) =
     (let (m', c) = Update B (fst e) (snd e) m
      in if requestsQuit c then Some m' else run B m' es)"

subsection \<open>The screens of the wizard\<close>

text \<open>
  The screen a session shows: the active view, with the file selection split into its two
  stages by \<open>csvFilePath\<close>, as \<open>updateFileSelection\<close> and \<open>View\<close> split it.
\<close>

datatype screen =
    Home
  | FileSelectionA
  | FileSelectionB
  | SubjectInput
  | Confirmation
  | Progress
  | QuitCountdown

definition screen :: "('l, 'f, 't, 'p) model \<Rightarrow> screen" where
  "screen m =
     (case currentView m of
        homeView \<Rightarrow> Home
      | fileSelectionView \<Rightarrow> (if csvFilePath m = [] then FileSelectionA else FileSelectionB)
      | subjectInputView \<Rightarrow> SubjectInput
      | confirmationView \<Rightarrow> Confirmation
      | progressView \<Rightarrow> Progress
      | quitView \<Rightarrow> QuitCountdown)"

definition wizardPath :: "screen list" where
  "wizardPath =
     [Home, FileSelectionA, FileSelectionB, SubjectInput, Confirmation, Progress]"

subsection \<open>A concrete set of widgets\<close>

text \<open>
  Simple stand-ins for the library widgets, used to evaluate the program on concrete
  events. The menu is the index of the selected entry among the two the program creates;
  a file picker holds the name of the highlighted file and selects it on \<open>enter\<close>; the
  text field appends typed runes; the progress bar stores its fraction, clamped to the
  unit interval.
\<close>

definition menuItems :: "item list" where
  "menuItems =
     [\<lparr>title = ''CSV and HTML Upload'', description = ''Pick CSV and HTML files for email''\<rparr>,
      \<lparr>title = ''Quit'', description = ''Exit the application''\<rparr>]"

definition isEnter :: "msg \<Rightarrow> bool" where
  "isEnter ms = (case ms of KeyMsg k \<Rightarrow> keyString k = ''enter'' | _ \<Rightarrow> False)"

definition typed :: "msg \<Rightarrow> string" where
  "typed ms = (case ms of KeyMsg k \<Rightarrow> (if keyType k = KeyRunes then keyString k else []) | _ \<Rightarrow> [])"

definition simpleBubbles :: "(nat, string, string, real) bubbles" where
  "simpleBubbles =
     \<lparr> style_GetFrameSize = (32, 32),
       list_SetSize = (\<lambda>w h l. l),
       list_CursorUp = (\<lambda>l. l - 1),
       list_CursorDown = (\<lambda>l. min 1 (l + 1)),
       list_SelectedItem = (\<lambda>l. if l < 2 then Some (menuItems ! l) else None),
       list_Update = (\<lambda>ms l. (l, NilCmd)),
       filepicker_Init = (\<lambda>fp. WidgetCmd 0),
       filepicker_Update = (\<lambda>ms fp. (fp, NilCmd)),
       filepicker_DidSelectFile =
         (\<lambda>ms fp. (isEnter ms, CurrentDirectory fp @ ''/'' @ pickerState fp)),
       textinput_Update = (\<lambda>ms ti. (ti @ typed ms, NilCmd)),
       textinput_Value = (\<lambda>ti. ti),
       progress_SetPercent = (\<lambda>x pr. (pr\<lparr>barState := max 0 (min 1 x)\<rparr>, WidgetCmd 1)),
       progress_Update = (\<lambda>ms pr. (pr, NilCmd)) \<rparr>"

definition simpleModel :: "(nat, string, string, real) model" where
  "simpleModel =
     initialModel 0 ''data.csv'' ''tpl.html'' [] \<lparr>Width = 40, barState = 0\<rparr> ''/home/u''"

definition press :: "string \<Rightarrow> event" where
  "press s = (\<lparr>nowStart = 0, nowSince = 0\<rparr>, KeyMsg \<lparr>keyType = KeyOther 0, keyString = s\<rparr>)"

definition pressEnter :: event where
  "pressEnter = (\<lparr>nowStart = 0, nowSince = 0\<rparr>, KeyMsg \<lparr>keyType = KeyEnter, keyString = ''enter''\<rparr>)"

definition type_runes :: "string \<Rightarrow> event" where
  "type_runes s = (\<lparr>nowStart = 0, nowSince = 0\<rparr>, KeyMsg \<lparr>keyType = KeyRunes, keyString = s\<rparr>)"

definition tickAt :: "int \<Rightarrow> event" where
  "tickAt t = (\<lparr>nowStart = t, nowSince = t\<rparr>, tickMsg t)"

text \<open>
  Keys, a clock that is not read, and the sessions on the subject input, confirmation and
  progress screens, reached by key presses from the initial one.
\<close>

definition enterKey :: Key where
  "enterKey = \<lparr>keyType = KeyEnter, keyString = ''enter''\<rparr>"

definition namedKey :: "string \<Rightarrow> Key" where
  "namedKey s = \<lparr>keyType = KeyOther 0, keyString = s\<rparr>"

definition noClock :: clock where
  "noClock = \<lparr>nowStart = 0, nowSince = 0\<rparr>"

definition qKey :: Key where
  "qKey = \<lparr>keyType = KeyRunes, keyString = ''q''\<rparr>"

definition atSubjectInput :: "(nat, string, string, real) model" where
  "atSubjectInput =
     exec simpleBubbles simpleModel [pressEnter, pressEnter, pressEnter, type_runes ''Welcome'']"

definition atConfirmation :: "(nat, string, string, real) model" where
  "atConfirmation =
     exec simpleBubbles simpleModel
       [pressEnter, pressEnter, pressEnter, type_runes ''Welcome'', pressEnter]"

definition atProgress :: "(nat, string, string, real) model" where
  "atProgress = exec simpleBubbles atConfirmation [pressEnter]"

subsection \<open>The earlier variant of the program\<close>

text \<open>
  \<open>src/unnamed/part_000\<close> is an earlier version of the same file: no home menu, no quit
  countdown, no \<open>tag\<close>; the session starts on the file selection. Its \<open>model\<close> has a
  subset of the fields above, so the same record serves, with the other fields never read or
  written. Its \<open>updateSubjectInput\<close>, \<open>updateConfirmation\<close>, \<open>tickCmd\<close> and
  \<open>main\<close> are the ones above, word for word; the functions that differ follow, with the
  suffix \<open>_legacy\<close>.
\<close>

definition maxWidth_legacy :: int where
  "maxWidth_legacy = 80"

definition initialModel_legacy ::
  "'l \<Rightarrow> 'f \<Rightarrow> 'f \<Rightarrow> 't \<Rightarrow> 'p progress \<Rightarrow> string \<Rightarrow> ('l, 'f, 't, 'p) model" where
  "initialModel_legacy unused csvFp htmlFp ti pr homeDir =
     (initialModel unused csvFp htmlFp ti pr homeDir)\<lparr>currentView := fileSelectionView\<rparr>"

text \<open>\<open>updateProgress\<close> of the earlier variant (lines 99-127).\<close>

definition updateProgress_legacy ::
  "('l, 'f, 't, 'p) bubbles \<Rightarrow> clock \<Rightarrow> msg \<Rightarrow> ('l, 'f, 't, 'p) model
     \<Rightarrow> ('l, 'f, 't, 'p) model \<times> cmd" where
  "updateProgress_legacy B clk ms m =
     (case ms of
        WindowSizeMsg w h \<Rightarrow>
          (let wd = w - padding * 2 - 4;
               wd' = (if wd > maxWidth_legacy then maxWidth_legacy else wd)
           in (m\<lparr>progress := (progress m)\<lparr>Width := wd'\<rparr>\<rparr>, NilCmd))
      | tickMsg t \<Rightarrow>
          (let m1 = (if IsZero (startTime m) then m\<lparr>startTime := nowStart clk\<rparr> else m);
               elapsed = Since clk (startTime m1)
           in if elapsed \<ge> 5 * Second then (m1, Quit)
              else
                (let progressNum = real_of_int elapsed / (5 * real_of_int Second);
                     (pr, c) = progress_SetPercent B progressNum (progress m1)
                 in (m1\<lparr>progress := pr\<rparr>, Batch [tickCmd, c])))
      | FrameMsg n \<Rightarrow>
          (let (pr, c) = progress_Update B ms (progress m)
           in (m\<lparr>progress := pr\<rparr>, c))
      | _ \<Rightarrow> (m, NilCmd))"

text \<open>
  \<open>updateFileSelection\<close> of the earlier variant (lines 129-162): after the switch, both
  pickers handle the event (\<open>bothPickers\<close>, lines 157-161), with the command the switch
  left in \<open>cmd\<close>.
\<close>

definition bothPickers ::
  "('l, 'f, 't, 'p) bubbles \<Rightarrow> msg \<Rightarrow> cmd \<Rightarrow> ('l, 'f, 't, 'p) model
     \<Rightarrow> ('l, 'f, 't, 'p) model \<times> cmd" where
  "bothPickers B ms c m =
     (let (csvFp, csvCmd) = filepicker_Update B ms (csvFilepicker m);
          (htmlFp, htmlCmd) = filepicker_Update B ms (htmlFilepicker m)
      in (m\<lparr>csvFilepicker := csvFp, htmlFilepicker := htmlFp\<rparr>, Batch [c, csvCmd, htmlCmd]))"

definition updateFileSelection_legacy ::
  "('l, 'f, 't, 'p) bubbles \<Rightarrow> msg \<Rightarrow> ('l, 'f, 't, 'p) model
     \<Rightarrow> ('l, 'f, 't, 'p) model \<times> cmd" where
  "updateFileSelection_legacy B ms m =
     (case ms of
        KeyMsg k \<Rightarrow>
          (if keyString k = ''tab'' then
             (let (m1, c) = forwardToPicker B ms m in bothPickers B ms c m1)
           else if keyString k = ''enter'' then
             (if csvFilePath m = [] then
                (let (selected, path) = filepicker_DidSelectFile B ms (csvFilepicker m)
                 in if selected then
                      bothPickers B ms NilCmd
                        (m\<lparr>csvFilePath := path,
                           htmlFilepicker := (htmlFilepicker m)
                             \<lparr>CurrentDirectory := CurrentDirectory (csvFilepicker m)\<rparr>\<rparr>)
                    else bothPickers B ms NilCmd m)
              else
                (let (selected, path) = filepicker_DidSelectFile B ms (htmlFilepicker m)
                 in if selected then
                      (m\<lparr>htmlFilePath := path, currentView := subjectInputView\<rparr>, Blink)
                    else bothPickers B ms NilCmd m))
           else bothPickers B ms NilCmd m)
      | _ \<Rightarrow> bothPickers B ms NilCmd m)"

text \<open>\<open>model.Update\<close> of the earlier variant (lines 75-97).\<close>

definition Update_legacy ::
  "('l, 'f, 't, 'p) bubbles \<Rightarrow> clock \<Rightarrow> msg \<Rightarrow> ('l, 'f, 't, 'p) model
     \<Rightarrow> ('l, 'f, 't, 'p) model \<times> cmd" where
  "Update_legacy B clk ms m =
     (let quitKey = (case ms of
                       KeyMsg k \<Rightarrow> keyString k = ''ctrl+c'' \<or> keyString k = ''q''
                     | _ \<Rightarrow> False)
      in if quitKey then (m\<lparr>quitting := True\<rparr>, Quit)
         else
           (case currentView m of
              fileSelectionView \<Rightarrow> updateFileSelection_legacy B ms m
            | subjectInputView \<Rightarrow> updateSubjectInput B ms m
            | confirmationView \<Rightarrow> updateConfirmation ms m
            | progressView \<Rightarrow> updateProgress_legacy B clk ms m
            | _ \<Rightarrow> (m, NilCmd)))"

subsection \<open>The fields the navigation depends on\<close>

text \<open>
  The part of the session that decides which screen is shown and what \<open>main\<close> prints;
  the widgets, the flags \<open>quitting\<close> and \<open>tag\<close> and the window size are outside it.
\<close>

definition core :: "('l, 'f, 't, 'p) model \<Rightarrow> view \<times> string \<times> string \<times> bool \<times> int" where
  "core m = (currentView m, csvFilePath m, htmlFilePath m, confirmed m, cursor m)"


section \<open>What each handler leaves unchanged\<close>

lemma updateProgress_frame:
  "currentView (fst (updateProgress B clk ms m)) = currentView m"
  "csvFilePath (fst (updateProgress B clk ms m)) = csvFilePath m"
  "htmlFilePath (fst (updateProgress B clk ms m)) = htmlFilePath m"
  "confirmed (fst (updateProgress B clk ms m)) = confirmed m"
  "cursor (fst (updateProgress B clk ms m)) = cursor m"
  by (simp_all add: updateProgress_def Let_def split: msg.splits prod.splits)

lemma forwardToPicker_frame:
  "currentView (fst (forwardToPicker B ms m)) = currentView m"
  "csvFilePath (fst (forwardToPicker B ms m)) = csvFilePath m"
  "htmlFilePath (fst (forwardToPicker B ms m)) = htmlFilePath m"
  "confirmed (fst (forwardToPicker B ms m)) = confirmed m"
  "cursor (fst (forwardToPicker B ms m)) = cursor m"
  by (simp_all add: forwardToPicker_def Let_def split: prod.splits)

lemma updateFileSelection_frame:
  "confirmed (fst (updateFileSelection B ms m)) = confirmed m"
  "cursor (fst (updateFileSelection B ms m)) = cursor m"
  by (simp_all add: updateFileSelection_def forwardToPicker_frame Let_def split: msg.splits prod.splits)

lemma updateFileSelection_view:
  "currentView (fst (updateFileSelection B ms m)) = currentView m
   \<or> (csvFilePath m \<noteq> [] \<and> currentView (fst (updateFileSelection B ms m)) = subjectInputView)"
  by (simp add: updateFileSelection_def forwardToPicker_frame Let_def split: msg.splits prod.splits)

lemma updateFileSelection_csv:
  "csvFilePath m \<noteq> [] \<Longrightarrow> csvFilePath (fst (updateFileSelection B ms m)) = csvFilePath m"
  by (simp add: updateFileSelection_def forwardToPicker_frame Let_def split: msg.splits prod.splits)

lemma updateFileSelection_html:
  "csvFilePath m = [] \<Longrightarrow> htmlFilePath (fst (updateFileSelection B ms m)) = htmlFilePath m"
  by (simp add: updateFileSelection_def forwardToPicker_frame Let_def split: msg.splits prod.splits)

lemma updateSubjectInput_frame:
  "csvFilePath (fst (updateSubjectInput B ms m)) = csvFilePath m"
  "htmlFilePath (fst (updateSubjectInput B ms m)) = htmlFilePath m"
  "confirmed (fst (updateSubjectInput B ms m)) = confirmed m"
  "cursor (fst (updateSubjectInput B ms m)) = cursor m"
  by (simp_all add: updateSubjectInput_def Let_def split: msg.splits prod.splits)

lemma updateSubjectInput_view:
  "currentView (fst (updateSubjectInput B ms m)) = currentView m
   \<or> currentView (fst (updateSubjectInput B ms m)) = confirmationView"
  by (simp add: updateSubjectInput_def Let_def split: msg.splits prod.splits)

lemma updateConfirmation_frame:
  "csvFilePath (fst (updateConfirmation ms m)) = csvFilePath m"
  "htmlFilePath (fst (updateConfirmation ms m)) = htmlFilePath m"
  by (simp_all add: updateConfirmation_def Let_def split: msg.splits prod.splits)

lemma updateConfirmation_view:
  "currentView (fst (updateConfirmation ms m)) = currentView m
   \<or> currentView (fst (updateConfirmation ms m)) = progressView"
  by (simp add: updateConfirmation_def Let_def split: msg.splits prod.splits)

lemma updateConfirmation_confirmed:
  "currentView m = confirmationView \<Longrightarrow>
   confirmed (fst (updateConfirmation ms m))
     = (currentView (fst (updateConfirmation ms m)) = progressView) \<or>
   (confirmed (fst (updateConfirmation ms m)) = confirmed m \<and>
    currentView (fst (updateConfirmation ms m)) = confirmationView)"
  by (simp add: updateConfirmation_def Let_def split: msg.splits prod.splits)

lemma updateConfirmation_cursor:
  "0 \<le> cursor m \<and> cursor m \<le> 1 \<Longrightarrow>
   0 \<le> cursor (fst (updateConfirmation ms m)) \<and> cursor (fst (updateConfirmation ms m)) \<le> 1"
  by (simp add: updateConfirmation_def Let_def split: msg.splits)


lemma Update_tail_csv:
  "csvFilePath m \<noteq> [] \<Longrightarrow> csvFilePath (fst (Update_tail B clk ms m)) = csvFilePath m"
  by (simp add: Update_tail_def Let_def updateProgress_frame updateFileSelection_csv
      updateSubjectInput_frame updateConfirmation_frame split: prod.splits view.splits)

lemma Update_tail_csv_other:
  "currentView m \<noteq> fileSelectionView \<Longrightarrow>
   csvFilePath (fst (Update_tail B clk ms m)) = csvFilePath m"
  by (simp add: Update_tail_def Let_def updateProgress_frame
      updateSubjectInput_frame updateConfirmation_frame split: prod.splits view.splits)

lemma Update_tail_html:
  "csvFilePath m = [] \<Longrightarrow> htmlFilePath (fst (Update_tail B clk ms m)) = htmlFilePath m"
  by (simp add: Update_tail_def Let_def updateProgress_frame updateFileSelection_html
      updateSubjectInput_frame updateConfirmation_frame split: prod.splits view.splits)

lemma Update_tail_cursor:
  "0 \<le> cursor m \<and> cursor m \<le> 1 \<Longrightarrow>
   0 \<le> cursor (fst (Update_tail B clk ms m)) \<and> cursor (fst (Update_tail B clk ms m)) \<le> 1"
  by (simp add: Update_tail_def Let_def updateProgress_frame updateFileSelection_frame
      updateSubjectInput_frame updateConfirmation_cursor split: prod.splits view.splits)

lemma Update_tail_view:
  "currentView (fst (Update_tail B clk ms m)) = currentView m
   \<or> (currentView m = fileSelectionView \<and> csvFilePath m \<noteq> []
        \<and> currentView (fst (Update_tail B clk ms m)) = subjectInputView)
   \<or> (currentView m = subjectInputView
        \<and> currentView (fst (Update_tail B clk ms m)) = confirmationView)
   \<or> (currentView m = confirmationView
        \<and> currentView (fst (Update_tail B clk ms m)) = progressView)"
proof (cases "list_Update B ms (menu m)")
  case (Pair l c)
  show ?thesis
  proof (cases "currentView m")
    case fileSelectionView
    with Pair updateFileSelection_view [of B ms "m\<lparr>menu := l\<rparr>"] show ?thesis
      by (simp add: Update_tail_def)
  next
    case subjectInputView
    with Pair updateSubjectInput_view [of B ms "m\<lparr>menu := l\<rparr>"] show ?thesis
      by (simp add: Update_tail_def)
  next
    case confirmationView
    with Pair updateConfirmation_view [of ms "m\<lparr>menu := l\<rparr>"] show ?thesis
      by (simp add: Update_tail_def)
  next
    case progressView
    with Pair show ?thesis by (simp add: Update_tail_def updateProgress_frame)
  qed (simp_all add: Update_tail_def Pair)
qed

lemma Update_tail_confirmed:
  "confirmed m = (currentView m = progressView) \<Longrightarrow>
   confirmed (fst (Update_tail B clk ms m))
     = (currentView (fst (Update_tail B clk ms m)) = progressView)"
proof (cases "list_Update B ms (menu m)")
  case (Pair l c)
  assume inv: "confirmed m = (currentView m = progressView)"
  show ?thesis
  proof (cases "currentView m")
    case fileSelectionView
    with Pair inv updateFileSelection_view [of B ms "m\<lparr>menu := l\<rparr>"] show ?thesis
      by (auto simp add: Update_tail_def updateFileSelection_frame)
  next
    case subjectInputView
    with Pair inv updateSubjectInput_view [of B ms "m\<lparr>menu := l\<rparr>"] show ?thesis
      by (auto simp add: Update_tail_def updateSubjectInput_frame)
  next
    case confirmationView
    with Pair inv updateConfirmation_confirmed [of "m\<lparr>menu := l\<rparr>" ms] show ?thesis
      by (auto simp add: Update_tail_def)
  next
    case progressView
    with Pair inv show ?thesis by (simp add: Update_tail_def updateProgress_frame)
  qed (use inv in \<open>simp_all add: Update_tail_def Pair\<close>)
qed



section \<open>Case analysis of the dispatcher\<close>

text \<open>
  Whatever the event, \<open>Update\<close> ends in one of three ways: it returns a session with the
  same navigation fields; it returns what lines 188-202 make of such a session; or, on the
  home screen, it moves to the file selection.
\<close>

lemma core_simps [simp]:
  "core (m\<lparr>menu := l\<rparr>) = core m"
  "core (m\<lparr>quitting := q\<rparr>) = core m"
  "core (m\<lparr>tag := n\<rparr>) = core m"
  "core (m\<lparr>windowSize := ws\<rparr>) = core m"
  by (simp_all add: core_def)

lemma Update_quit_cases:
  assumes "\<And>m0 ms. core m0 = core m \<Longrightarrow> P (fst (Update_tail B clk ms m0))"
    and "\<And>m0. core m0 = core m \<Longrightarrow> P m0"
  shows "P (fst (Update_quit B clk k m))"
  using assms by (simp add: Update_quit_def)


lemma Update_cases:
  assumes tail: "\<And>m0 ms. core m0 = core m \<Longrightarrow> P (fst (Update_tail B clk ms m0))"
    and same: "\<And>m0. core m0 = core m \<Longrightarrow> P m0"
    and home: "currentView m = homeView \<Longrightarrow> P (m\<lparr>currentView := fileSelectionView\<rparr>)"
  shows "P (fst (Update B clk ms m))"
proof -
  have q: "P (fst (Update_quit B clk k m0))" if "core m0 = core m" for k m0
    by (rule Update_quit_cases) (simp_all add: that tail same)
  show ?thesis
  proof (cases ms)
    case (WindowSizeMsg w h)
    then show ?thesis
      by (simp add: Update_def tail split: prod.splits)
  next
    case (KeyMsg k)
    show ?thesis
    proof (cases "currentView m")
      case homeView
      then show ?thesis
        using KeyMsg home by (simp add: Update_def q same split: option.splits)
    next
      case progressView
      then show ?thesis
        using KeyMsg by (simp add: Update_def Let_def same)
    qed (simp_all add: Update_def KeyMsg q same)
  qed (simp_all add: Update_def tail same)
qed

lemma Update_csv:
  "csvFilePath m \<noteq> [] \<Longrightarrow> csvFilePath (fst (Update B clk ms m)) = csvFilePath m"
  by (rule Update_cases) (simp_all add: core_def Update_tail_csv)

lemma Update_csv_other:
  "currentView m \<noteq> fileSelectionView \<Longrightarrow>
   csvFilePath (fst (Update B clk ms m)) = csvFilePath m"
  by (rule Update_cases) (simp_all add: core_def Update_tail_csv_other)

lemma Update_html:
  "csvFilePath m = [] \<Longrightarrow> htmlFilePath (fst (Update B clk ms m)) = htmlFilePath m"
  by (rule Update_cases) (simp_all add: core_def Update_tail_html)

lemma Update_cursor:
  "0 \<le> cursor m \<and> cursor m \<le> 1 \<Longrightarrow>
   0 \<le> cursor (fst (Update B clk ms m)) \<and> cursor (fst (Update B clk ms m)) \<le> 1"
  by (rule Update_cases) (simp_all add: core_def Update_tail_cursor)

lemma Update_confirmed:
  "confirmed m = (currentView m = progressView) \<Longrightarrow>
   confirmed (fst (Update B clk ms m)) = (currentView (fst (Update B clk ms m)) = progressView)"
  by (rule Update_cases) (simp_all add: core_def Update_tail_confirmed)

lemma Update_view:
  "currentView (fst (Update B clk ms m)) = currentView m
   \<or> (currentView m = homeView \<and> currentView (fst (Update B clk ms m)) = fileSelectionView)
   \<or> (currentView m = fileSelectionView \<and> csvFilePath m \<noteq> []
        \<and> currentView (fst (Update B clk ms m)) = subjectInputView)
   \<or> (currentView m = subjectInputView
        \<and> currentView (fst (Update B clk ms m)) = confirmationView)
   \<or> (currentView m = confirmationView
        \<and> currentView (fst (Update B clk ms m)) = progressView)"
proof (rule Update_cases)
  fix m0 :: "('a, 'b, 'c, 'd) model" and ms0
  assume "core m0 = core m"
  then have "currentView m0 = currentView m" "csvFilePath m0 = csvFilePath m"
    by (simp_all add: core_def)
  with Update_tail_view [of B clk ms0 m0]
  show "currentView (fst (Update_tail B clk ms0 m0)) = currentView m
   \<or> (currentView m = homeView \<and> currentView (fst (Update_tail B clk ms0 m0)) = fileSelectionView)
   \<or> (currentView m = fileSelectionView \<and> csvFilePath m \<noteq> []
        \<and> currentView (fst (Update_tail B clk ms0 m0)) = subjectInputView)
   \<or> (currentView m = subjectInputView
        \<and> currentView (fst (Update_tail B clk ms0 m0)) = confirmationView)
   \<or> (currentView m = confirmationView
        \<and> currentView (fst (Update_tail B clk ms0 m0)) = progressView)"
    by auto
qed (simp_all add: core_def)


lemma Update_key_confirmation:
  "currentView m = confirmationView \<Longrightarrow> keyString k \<noteq> ''ctrl+c'' \<Longrightarrow> keyString k \<noteq> ''q'' \<Longrightarrow>
   Update B clk (KeyMsg k) m
     = updateConfirmation (KeyMsg k) (m\<lparr>menu := fst (list_Update B (KeyMsg k) (menu m))\<rparr>)"
  by (simp add: Update_def Update_quit_def Update_tail_def split: prod.splits)


lemma Update_tick_progress:
  "currentView m = progressView \<Longrightarrow>
   Update B clk (tickMsg t) m
     = updateProgress B clk (tickMsg t) (m\<lparr>menu := fst (list_Update B (tickMsg t) (menu m))\<rparr>)"
  by (simp add: Update_def Update_tail_def split: prod.splits)


section \<open>Evaluating the concrete sessions\<close>

lemmas simple_defs =
  simpleBubbles_def simpleModel_def initialModel_def pressEnter_def press_def type_runes_def
  tickAt_def isEnter_def typed_def menuItems_def
  Update_def Update_quit_def Update_tail_def updateFileSelection_def forwardToPicker_def
  updateSubjectInput_def updateConfirmation_def updateProgress_def tickCmd_def

lemma atConfirmation_eq:
  "atConfirmation =
     simpleModel\<lparr>currentView := confirmationView, csvFilePath := ''/home/u/data.csv'',
       htmlFilePath := ''/home/u/tpl.html'', subject := ''Welcome'', textInput := ''Welcome''\<rparr>"
  by (simp add: atConfirmation_def simple_defs)

lemma atProgress_eq:
  "atProgress = atConfirmation\<lparr>currentView := progressView, confirmed := True\<rparr>"
  by (simp add: atProgress_def atConfirmation_eq simple_defs)

lemma atSubjectInput_eq:
  "atSubjectInput =
     simpleModel\<lparr>currentView := subjectInputView, csvFilePath := ''/home/u/data.csv'',
       htmlFilePath := ''/home/u/tpl.html'', textInput := ''Welcome''\<rparr>"
  by (simp add: atSubjectInput_def simple_defs)

section \<open>The entry point's summary line\<close>

text \<open>
  C3. After the event loop has ended without an error, \<open>main\<close> writes exactly one of two
  lines to standard output: the line \<open>Emails sent using CSV file: <csvPath>, HTML template:
  <htmlPath>, and subject: <subject>\<close> followed by a newline when the final session has
  \<open>confirmed\<close> set, and \<open>Operation cancelled.\<close> followed by a newline in every other
  case. The exit status is 0 in both.
\<close>

theorem main_prints_one_of_two_lines:
  "main (m, None) =
     (if confirmed m then
        (''Emails sent using CSV file: '' @ csvFilePath m @ '', HTML template: ''
           @ htmlFilePath m @ '', and subject: '' @ subject m @ [CHR 0x0A], 0)
      else (''Operation cancelled.'' @ [CHR 0x0A], 0))"
  by (simp add: main_def newline_def)

theorem main_prints_one_of_two_lines_witness:
  "main (atProgress, None) =
     (''Emails sent using CSV file: /home/u/data.csv, HTML template: /home/u/tpl.html, and subject: Welcome''
        @ [CHR 0x0A], 0)
   \<and> main (atConfirmation, None) = (''Operation cancelled.'' @ [CHR 0x0A], 0)"
  using main_prints_one_of_two_lines [of atProgress]
    main_prints_one_of_two_lines [of atConfirmation]
  by (simp add: atProgress_eq atConfirmation_eq simpleModel_def initialModel_def)

section \<open>The confirmation screen\<close>

text \<open>
  C5. On the confirmation screen, the \<open>enter\<close> key with the cursor at index 0 (Yes) sets
  \<open>confirmed\<close> to true, makes the progress screen the active one and arms the timer (a
  tick after 100 ms); with the cursor at index 1 (No) it sets \<open>confirmed\<close> to false and
  asks the loop to stop at once: the active screen stays the confirmation screen and the loop
  returns the session as this call left it.
\<close>

theorem confirmation_enter_yes_no:
  "(currentView m = confirmationView \<and> keyString k = ''enter'' \<and> cursor m = 0 \<longrightarrow>
      confirmed (fst (Update B clk (KeyMsg k) m))
      \<and> currentView (fst (Update B clk (KeyMsg k) m)) = progressView
      \<and> snd (Update B clk (KeyMsg k) m) = Tick (100 * Millisecond) tickMsg)
   \<and> (currentView m = confirmationView \<and> keyString k = ''enter'' \<and> cursor m = 1 \<longrightarrow>
      \<not> confirmed (fst (Update B clk (KeyMsg k) m))
      \<and> currentView (fst (Update B clk (KeyMsg k) m)) = confirmationView
      \<and> snd (Update B clk (KeyMsg k) m) = Quit
      \<and> run B m ((clk, KeyMsg k) # es) = Some (fst (Update B clk (KeyMsg k) m)))"
  by (simp add: Update_key_confirmation updateConfirmation_def tickCmd_def split_beta)

theorem confirmation_enter_yes_no_witness:
  "(currentView atConfirmation = confirmationView \<and> keyString (enterKey) = ''enter''
      \<and> cursor atConfirmation = 0
      \<and> confirmed (fst (Update simpleBubbles noClock (KeyMsg enterKey) atConfirmation))
      \<and> currentView (fst (Update simpleBubbles noClock (KeyMsg enterKey) atConfirmation))
           = progressView
      \<and> snd (Update simpleBubbles noClock (KeyMsg enterKey) atConfirmation)
           = Tick (100 * Millisecond) tickMsg)
   \<and> (currentView (atConfirmation\<lparr>cursor := 1\<rparr>) = confirmationView
      \<and> cursor (atConfirmation\<lparr>cursor := 1\<rparr>) = 1
      \<and> \<not> confirmed
            (fst (Update simpleBubbles noClock (KeyMsg enterKey) (atConfirmation\<lparr>cursor := 1\<rparr>)))
      \<and> snd (Update simpleBubbles noClock (KeyMsg enterKey) (atConfirmation\<lparr>cursor := 1\<rparr>))
           = Quit)"
  using confirmation_enter_yes_no [of atConfirmation enterKey simpleBubbles noClock "[]"]
    confirmation_enter_yes_no [of "atConfirmation\<lparr>cursor := 1\<rparr>" enterKey simpleBubbles noClock "[]"]
  by (simp add: atConfirmation_eq simpleModel_def initialModel_def enterKey_def)

text \<open>
  C8. On the confirmation screen the cursor wraps around the two choices: \<open>down\<close> (or
  \<open>j\<close>) at index 1 gives index 0, \<open>up\<close> (or \<open>k\<close>) at index 0 gives index 1, and a
  cursor in \<open>{0, 1}\<close> is still in \<open>{0, 1}\<close> after any sequence of events, up and down
  presses included.
\<close>

theorem confirmation_cursor_wraps:
  "(currentView m = confirmationView \<and> (keyString k = ''down'' \<or> keyString k = ''j'')
      \<and> cursor m = 1 \<longrightarrow>
      cursor (fst (Update B clk (KeyMsg k) m)) = 0)
   \<and> (currentView m = confirmationView \<and> (keyString k = ''up'' \<or> keyString k = ''k'')
      \<and> cursor m = 0 \<longrightarrow>
      cursor (fst (Update B clk (KeyMsg k) m)) = 1)
   \<and> (cursor m \<in> {0, 1} \<longrightarrow> cursor (exec B m evs) \<in> {0, 1})"
proof -
  have "0 \<le> cursor m \<and> cursor m \<le> 1 \<Longrightarrow>
        0 \<le> cursor (exec B m evs) \<and> cursor (exec B m evs) \<le> 1"
  proof (induction evs arbitrary: m)
    case Nil
    then show ?case by simp
  next
    case (Cons e evs)
    show ?case
      using Cons.IH [OF Update_cursor [OF Cons.prems]] by simp
  qed
  then have "cursor m \<in> {0, 1} \<longrightarrow> cursor (exec B m evs) \<in> {0, 1}"
    by auto
  then show ?thesis
    by (auto simp add: Update_key_confirmation updateConfirmation_def)
qed

theorem confirmation_cursor_wraps_witness:
  "cursor (atConfirmation\<lparr>cursor := 1\<rparr>) = 1
   \<and> cursor (fst (Update simpleBubbles noClock (KeyMsg (namedKey ''down''))
                 (atConfirmation\<lparr>cursor := 1\<rparr>))) = 0
   \<and> cursor atConfirmation = 0
   \<and> cursor (fst (Update simpleBubbles noClock (KeyMsg (namedKey ''up'')) atConfirmation)) = 1
   \<and> cursor (exec simpleBubbles atConfirmation
                [press ''up'', press ''up'', press ''down'', press ''up'']) \<in> {0, 1}"
  using confirmation_cursor_wraps [of "atConfirmation\<lparr>cursor := 1\<rparr>" "namedKey ''down''"
      simpleBubbles noClock "[]"]
    confirmation_cursor_wraps [of atConfirmation "namedKey ''up''" simpleBubbles noClock
      "[press ''up'', press ''up'', press ''down'', press ''up'']"]
  by (simp add: atConfirmation_eq simpleModel_def initialModel_def namedKey_def)

text \<open>
  C9. While the confirmation screen is active, a key event that is none of \<open>up\<close>,
  \<open>k\<close>, \<open>down\<close>, \<open>j\<close>, \<open>enter\<close>, \<open>q\<close>, \<open>ctrl+c\<close> leaves the confirmation cursor and
  the active screen unchanged.
\<close>

theorem confirmation_ignores_other_keys:
  "currentView m = confirmationView \<Longrightarrow>
   keyString k \<notin> {''up'', ''k'', ''down'', ''j'', ''enter'', ''q'', ''ctrl+c''} \<Longrightarrow>
   cursor (fst (Update B clk (KeyMsg k) m)) = cursor m
   \<and> currentView (fst (Update B clk (KeyMsg k) m)) = currentView m"
  by (simp add: Update_key_confirmation updateConfirmation_def)

theorem confirmation_ignores_other_keys_witness:
  "currentView atConfirmation = confirmationView
   \<and> keyString (namedKey ''x'') \<notin> {''up'', ''k'', ''down'', ''j'', ''enter'', ''q'', ''ctrl+c''}
   \<and> cursor (fst (Update simpleBubbles noClock (KeyMsg (namedKey ''x'')) atConfirmation)) = 0
   \<and> currentView (fst (Update simpleBubbles noClock (KeyMsg (namedKey ''x'')) atConfirmation))
        = confirmationView"
  using confirmation_ignores_other_keys [of atConfirmation "namedKey ''x''" simpleBubbles noClock]
  by (simp add: atConfirmation_eq simpleModel_def initialModel_def namedKey_def)

section \<open>The subject input screen\<close>



section \<open>The progress screen\<close>

lemma Since_nonneg: "u \<le> nowSince clk \<Longrightarrow> 0 \<le> Since clk u"
  by (simp add: Since_def Sub_def Let_def maxDuration_def minDuration_def)

lemma fraction_bounds:
  "0 \<le> e \<Longrightarrow> e < 5 * Second \<Longrightarrow>
   0 \<le> real_of_int e / (5 * real_of_int Second) \<and> real_of_int e / (5 * real_of_int Second) < 1"
  by (simp add: Second_def Millisecond_def)

text \<open>
  C4. On the progress screen a timer tick first records the start time if none is recorded
  (the first tick after entering the screen). With \<open>elapsed\<close> the time since the recorded
  start: when \<open>elapsed\<close> is at least 5 seconds the handler returns the quit command and the
  loop ends with this event, so termination is requested once; when it is less, the handler
  does not return the quit command, sets the bar's fraction to \<open>elapsed\<close> divided by 5
  seconds and re-arms the timer with a 100 ms tick, batched with the bar's own command, and
  the loop goes on to the next event. With a clock that does not run backwards the fraction
  lies in \<open>[0, 1)\<close>, where clamping to \<open>[0, 1]\<close> changes nothing. The fraction, a
  \<open>float64\<close> in the source, is a real number here.
\<close>

theorem progress_tick:
  "currentView m = progressView \<longrightarrow>
     (let start = (if startTime m = 0 then nowStart clk else startTime m);
          elapsed = Since clk start;
          fraction = real_of_int elapsed / (5 * real_of_int Second);
          bar = progress_SetPercent B fraction (progress m);
          r = Update B clk (tickMsg t) m
      in startTime (fst r) = start
         \<and> (5 * Second \<le> elapsed \<longrightarrow>
               snd r = Quit \<and> run B m ((clk, tickMsg t) # es) = Some (fst r))
         \<and> (elapsed < 5 * Second \<longrightarrow>
               snd r = Batch [Tick (100 * Millisecond) tickMsg, snd bar]
               \<and> progress (fst r) = fst bar
               \<and> snd r \<noteq> Quit
               \<and> (\<not> requestsQuit (snd bar) \<longrightarrow>
                    run B m ((clk, tickMsg t) # es) = run B (fst r) es))
         \<and> (start \<le> nowSince clk \<and> elapsed < 5 * Second \<longrightarrow>
               0 \<le> fraction \<and> fraction < 1 \<and> max 0 (min 1 fraction) = fraction))"
proof -
  have b: "0 \<le> real_of_int (Since clk u) / (5 * real_of_int Second)
           \<and> real_of_int (Since clk u) / (5 * real_of_int Second) < 1
           \<and> max 0 (min 1 (real_of_int (Since clk u) / (5 * real_of_int Second)))
               = real_of_int (Since clk u) / (5 * real_of_int Second)"
    if "u \<le> nowSince clk" "Since clk u < 5 * Second" for u
    using fraction_bounds [OF Since_nonneg [OF that(1)] that(2)] by simp
  show ?thesis
    by (simp add: Update_tick_progress updateProgress_def IsZero_def tickCmd_def Let_def
        split_beta b)
qed

theorem progress_tick_witness:
  "currentView atProgress = progressView
   \<and> startTime (fst (Update simpleBubbles \<lparr>nowStart = 7, nowSince = 9\<rparr> (tickMsg 7) atProgress)) = 7
   \<and> barState (progress (fst (Update simpleBubbles \<lparr>nowStart = 7, nowSince = 9\<rparr> (tickMsg 7)
        atProgress))) = 2 / 5000000000
   \<and> barState (progress (fst (Update simpleBubbles \<lparr>nowStart = 0, nowSince = 4900000007\<rparr>
        (tickMsg 0) (atProgress\<lparr>startTime := 7\<rparr>)))) = 49 / 50
   \<and> snd (Update simpleBubbles \<lparr>nowStart = 0, nowSince = 4900000007\<rparr>
        (tickMsg 0) (atProgress\<lparr>startTime := 7\<rparr>))
       = Batch [Tick (100 * Millisecond) tickMsg, WidgetCmd 1]
   \<and> snd (Update simpleBubbles \<lparr>nowStart = 0, nowSince = 5000000007\<rparr>
        (tickMsg 0) (atProgress\<lparr>startTime := 7\<rparr>)) = Quit"
  using progress_tick [of atProgress "\<lparr>nowStart = 7, nowSince = 9\<rparr>" simpleBubbles 7 "[]"]
    progress_tick [of "atProgress\<lparr>startTime := 7\<rparr>" "\<lparr>nowStart = 0, nowSince = 4900000007\<rparr>"
      simpleBubbles 0 "[]"]
    progress_tick [of "atProgress\<lparr>startTime := 7\<rparr>" "\<lparr>nowStart = 0, nowSince = 5000000007\<rparr>"
      simpleBubbles 0 "[]"]
  by (simp add: atProgress_eq atConfirmation_eq simpleModel_def initialModel_def
      simpleBubbles_def Since_def Sub_def maxDuration_def minDuration_def Second_def
      Millisecond_def Let_def)


section \<open>Invariants of the event loop\<close>

lemma exec_append: "exec B m (xs @ ys) = exec B (exec B m xs) ys"
  by (induction xs arbitrary: m) simp_all

lemma Update_paths_inv:
  "htmlFilePath m \<noteq> [] \<longrightarrow> csvFilePath m \<noteq> [] \<Longrightarrow>
   htmlFilePath (fst (Update B clk ms m)) \<noteq> [] \<longrightarrow> csvFilePath (fst (Update B clk ms m)) \<noteq> []"
  by (cases "csvFilePath m = []") (simp_all add: Update_html Update_csv)

lemma exec_paths_inv:
  "htmlFilePath m \<noteq> [] \<longrightarrow> csvFilePath m \<noteq> [] \<Longrightarrow>
   htmlFilePath (exec B m evs) \<noteq> [] \<longrightarrow> csvFilePath (exec B m evs) \<noteq> []"
proof (induction evs arbitrary: m)
  case Nil
  then show ?case by simp
next
  case (Cons e evs)
  from Cons.IH [OF Update_paths_inv [OF Cons.prems]] show ?case by simp
qed

lemma exec_csv:
  "csvFilePath m \<noteq> [] \<Longrightarrow> csvFilePath (exec B m evs) = csvFilePath m"
proof (induction evs arbitrary: m)
  case Nil
  then show ?case by simp
next
  case (Cons e evs)
  have "csvFilePath (fst (Update B (fst e) (snd e) m)) = csvFilePath m"
    using Cons.prems by (rule Update_csv)
  with Cons.IH [of "fst (Update B (fst e) (snd e) m)"] Cons.prems show ?case by simp
qed

text \<open>
  C7. In every session reached from the initial one by any sequence of events, a non-empty
  \<open>htmlFilePath\<close> implies a non-empty \<open>csvFilePath\<close>: an event handled while
  \<open>csvFilePath\<close> is empty leaves \<open>htmlFilePath\<close> as it was, and once
  \<open>csvFilePath\<close> is non-empty no sequence of events changes it.
\<close>

theorem html_path_only_after_csv_path:
  "(htmlFilePath (exec B (initialModel homeList csvFp htmlFp ti pr dir) evs) \<noteq> [] \<longrightarrow>
      csvFilePath (exec B (initialModel homeList csvFp htmlFp ti pr dir) evs) \<noteq> [])
   \<and> (csvFilePath m = [] \<longrightarrow> htmlFilePath (fst (Update B clk ms m)) = htmlFilePath m)
   \<and> (csvFilePath m \<noteq> [] \<longrightarrow> csvFilePath (exec B m evs) = csvFilePath m)"
proof -
  have "htmlFilePath (initialModel homeList csvFp htmlFp ti pr dir) \<noteq> [] \<longrightarrow>
        csvFilePath (initialModel homeList csvFp htmlFp ti pr dir) \<noteq> []"
    by (simp add: initialModel_def)
  from exec_paths_inv [OF this] show ?thesis
    by (simp add: Update_html exec_csv)
qed

theorem html_path_only_after_csv_path_witness:
  "htmlFilePath (exec simpleBubbles simpleModel [pressEnter, pressEnter, pressEnter])
     = ''/home/u/tpl.html''
   \<and> csvFilePath (exec simpleBubbles simpleModel [pressEnter, pressEnter, pressEnter]) \<noteq> []
   \<and> csvFilePath simpleModel = []
   \<and> htmlFilePath (fst (Update simpleBubbles noClock (KeyMsg enterKey) simpleModel)) = []
   \<and> csvFilePath atSubjectInput \<noteq> []
   \<and> csvFilePath (exec simpleBubbles atSubjectInput [pressEnter, press ''j'', pressEnter])
       = ''/home/u/data.csv''"
  using html_path_only_after_csv_path [of simpleBubbles 0 "''data.csv''" "''tpl.html''" "[]"
      "\<lparr>Width = 40, barState = 0\<rparr>" "''/home/u''" "[pressEnter, pressEnter, pressEnter]"
      simpleModel noClock "KeyMsg enterKey"]
    html_path_only_after_csv_path [of simpleBubbles 0 "''data.csv''" "''tpl.html''" "[]"
      "\<lparr>Width = 40, barState = 0\<rparr>" "''/home/u''" "[pressEnter, press ''j'', pressEnter]"
      atSubjectInput noClock "KeyMsg enterKey"]
  by (simp add: atSubjectInput_eq simple_defs)

lemma Update_progress_absorbing:
  "currentView m = progressView \<Longrightarrow> currentView (fst (Update B clk ms m)) = progressView"
  using Update_view [of B clk ms m] by auto

lemma exec_confirmed_inv:
  "confirmed m = (currentView m = progressView) \<Longrightarrow>
   confirmed (exec B m evs) = (currentView (exec B m evs) = progressView)"
proof (induction evs arbitrary: m)
  case Nil
  then show ?case by simp
next
  case (Cons e evs)
  from Cons.IH [OF Update_confirmed [OF Cons.prems]] show ?case by simp
qed

lemma exec_progress_absorbing:
  "currentView m = progressView \<Longrightarrow> currentView (exec B m evs) = progressView"
proof (induction evs arbitrary: m)
  case Nil
  then show ?case by simp
next
  case (Cons e evs)
  from Cons.IH [OF Update_progress_absorbing [OF Cons.prems]] show ?case by simp
qed

lemma run_is_exec:
  "run B m evs = Some mf \<Longrightarrow> \<exists>n. mf = exec B m (take n evs)"
proof (induction evs arbitrary: m)
  case Nil
  then show ?case by simp
next
  case (Cons e evs)
  show ?case
  proof (cases "requestsQuit (snd (Update B (fst e) (snd e) m))")
    case True
    with Cons.prems have "mf = exec B m (take 1 (e # evs))"
      by (simp add: split_beta)
    then show ?thesis by blast
  next
    case False
    with Cons.prems have "run B (fst (Update B (fst e) (snd e) m)) evs = Some mf"
      by (simp add: split_beta)
    from Cons.IH [OF this] obtain n
      where "mf = exec B (fst (Update B (fst e) (snd e) m)) (take n evs)" by blast
    then have "mf = exec B m (take (Suc n) (e # evs))" by simp
    then show ?thesis by blast
  qed
qed

lemma initial_confirmed_inv:
  "confirmed (initialModel homeList csvFp htmlFp ti pr dir)
     = (currentView (initialModel homeList csvFp htmlFp ti pr dir) = progressView)"
  by (simp add: initialModel_def)

lemma Update_key_progress:
  "currentView m = progressView \<Longrightarrow>
   Update B clk (KeyMsg k) m
     = (m\<lparr>tag := tag m + 1\<rparr>, Tick debounceDuration (\<lambda>_. exitMsg (tag m + 1)))"
  by (simp add: Update_def Let_def)

lemma Update_exit_progress:
  "currentView m = progressView \<Longrightarrow>
   Update B clk (exitMsg (tag m)) m = (m\<lparr>quitting := True\<rparr>, Quit)"
  by (simp add: Update_def)

text \<open>
  C10. Once a session reached from the initial one has \<open>confirmed\<close> set, the progress
  screen is active and every later session has \<open>confirmed\<close> set as well; whenever the
  loop then ends, \<open>main\<close> prints the \<open>Emails sent using CSV file: ...\<close> line. In
  particular a \<open>q\<close> pressed on the progress screen, followed by the exit message it
  scheduled, ends the loop with \<open>confirmed\<close> still set.
\<close>

theorem confirmed_is_never_reset:
  "confirmed (exec B (initialModel homeList csvFp htmlFp ti pr dir) evs) \<longrightarrow>
     currentView (exec B (initialModel homeList csvFp htmlFp ti pr dir) evs) = progressView
     \<and> confirmed (exec B (initialModel homeList csvFp htmlFp ti pr dir) (evs @ evs'))
     \<and> (\<forall>mf. run B (exec B (initialModel homeList csvFp htmlFp ti pr dir) evs) evs' = Some mf \<longrightarrow>
           confirmed mf
           \<and> main (mf, None) =
               (''Emails sent using CSV file: '' @ csvFilePath mf @ '', HTML template: ''
                  @ htmlFilePath mf @ '', and subject: '' @ subject mf @ [CHR 0x0A], 0))
     \<and> (keyString k = ''q'' \<longrightarrow>
           run B (exec B (initialModel homeList csvFp htmlFp ti pr dir) evs)
             [(clk, KeyMsg k),
              (clk', exitMsg (tag (exec B (initialModel homeList csvFp htmlFp ti pr dir) evs) + 1))]
           = Some ((exec B (initialModel homeList csvFp htmlFp ti pr dir) evs)
                    \<lparr>tag := tag (exec B (initialModel homeList csvFp htmlFp ti pr dir) evs) + 1,
                     quitting := True\<rparr>))"
proof
  let ?m = "exec B (initialModel homeList csvFp htmlFp ti pr dir) evs"
  assume c: "confirmed ?m"
  have inv: "confirmed ?m = (currentView ?m = progressView)"
    by (rule exec_confirmed_inv) (rule initial_confirmed_inv)
  with c have v: "currentView ?m = progressView" by simp
  have later: "confirmed (exec B ?m es)" for es
    using exec_confirmed_inv [OF inv, of B es] exec_progress_absorbing [OF v, of B es] by simp
  have fin: "confirmed mf" if "run B ?m evs' = Some mf" for mf
    using run_is_exec [OF that] later by blast
  have q: "run B ?m [(clk, KeyMsg k), (clk', exitMsg (tag ?m + 1))]
           = Some (?m\<lparr>tag := tag ?m + 1, quitting := True\<rparr>)"
    using Update_exit_progress [of "?m\<lparr>tag := tag ?m + 1\<rparr>" B clk'] v
    by (simp add: Update_key_progress)
  show "currentView ?m = progressView
     \<and> confirmed (exec B (initialModel homeList csvFp htmlFp ti pr dir) (evs @ evs'))
     \<and> (\<forall>mf. run B ?m evs' = Some mf \<longrightarrow>
           confirmed mf
           \<and> main (mf, None) =
               (''Emails sent using CSV file: '' @ csvFilePath mf @ '', HTML template: ''
                  @ htmlFilePath mf @ '', and subject: '' @ subject mf @ [CHR 0x0A], 0))
     \<and> (keyString k = ''q'' \<longrightarrow>
           run B ?m [(clk, KeyMsg k), (clk', exitMsg (tag ?m + 1))]
           = Some (?m\<lparr>tag := tag ?m + 1, quitting := True\<rparr>))"
    using v later [of evs'] fin q by (simp add: exec_append main_def newline_def)
qed


theorem confirmed_is_never_reset_witness:
  "confirmed (exec simpleBubbles simpleModel
       [pressEnter, pressEnter, pressEnter, type_runes ''Welcome'', pressEnter, pressEnter])
   \<and> keyString qKey = ''q''
   \<and> confirmed (exec simpleBubbles simpleModel
       ([pressEnter, pressEnter, pressEnter, type_runes ''Welcome'', pressEnter, pressEnter]
        @ [(noClock, KeyMsg qKey), (noClock, exitMsg 1)]))
   \<and> run simpleBubbles atProgress [(noClock, KeyMsg qKey), (noClock, exitMsg 1)]
       = Some (atProgress\<lparr>tag := 1, quitting := True\<rparr>)
   \<and> main (atProgress\<lparr>tag := 1, quitting := True\<rparr>, None) =
       (''Emails sent using CSV file: /home/u/data.csv, HTML template: /home/u/tpl.html, and subject: Welcome''
          @ [CHR 0x0A], 0)"
proof -
  have e: "exec simpleBubbles simpleModel
       [pressEnter, pressEnter, pressEnter, type_runes ''Welcome'', pressEnter, pressEnter]
     = atProgress"
    by (simp add: atProgress_def atConfirmation_def)
  have t: "tag atProgress = 0"
    by (simp add: atProgress_eq atConfirmation_eq simpleModel_def initialModel_def)
  show ?thesis
    using confirmed_is_never_reset [of simpleBubbles 0 "''data.csv''" "''tpl.html''" "[]"
      "\<lparr>Width = 40, barState = 0\<rparr>" "''/home/u''"
      "[pressEnter, pressEnter, pressEnter, type_runes ''Welcome'', pressEnter, pressEnter]"
      "[(noClock, KeyMsg qKey), (noClock, exitMsg 1)]" qKey noClock noClock]
    unfolding simpleModel_def [symmetric] e exec_append
    by (simp add: t qKey_def atProgress_eq atConfirmation_eq simpleModel_def initialModel_def)
qed

section \<open>The order of the screens\<close>

lemma Update_home_inv:
  "currentView m = homeView \<longrightarrow> csvFilePath m = [] \<Longrightarrow>
   currentView (fst (Update B clk ms m)) = homeView \<longrightarrow> csvFilePath (fst (Update B clk ms m)) = []"
  using Update_view [of B clk ms m] Update_csv_other [of m B clk ms] by auto

lemma screen_step:
  assumes "currentView m = homeView \<longrightarrow> csvFilePath m = []"
  shows "screen (fst (Update B clk ms m)) = screen m
   \<or> (screen m = Home \<and> screen (fst (Update B clk ms m)) = FileSelectionA)
   \<or> (screen m = FileSelectionA \<and> screen (fst (Update B clk ms m)) = FileSelectionB)
   \<or> (screen m = FileSelectionB \<and> screen (fst (Update B clk ms m)) = SubjectInput)
   \<or> (screen m = SubjectInput \<and> screen (fst (Update B clk ms m)) = Confirmation)
   \<or> (screen m = Confirmation \<and> screen (fst (Update B clk ms m)) = Progress)"
proof (cases "currentView m = fileSelectionView")
  case True
  show ?thesis
  proof (cases "csvFilePath m = []")
    case True
    with \<open>currentView m = fileSelectionView\<close> Update_view [of B clk ms m]
    show ?thesis by (auto simp add: screen_def)
  next
    case False
    with \<open>currentView m = fileSelectionView\<close> Update_view [of B clk ms m]
      Update_csv [of m B clk ms]
    show ?thesis by (auto simp add: screen_def)
  qed
next
  case False
  with assms Update_view [of B clk ms m] Update_csv_other [of m B clk ms]
  show ?thesis by (auto simp add: screen_def split: view.splits)
qed

lemma states_head: "\<exists>rest. states B m evs = m # rest"
  by (cases evs) simp_all

lemma screens_follow_path:
  "currentView m = homeView \<longrightarrow> csvFilePath m = [] \<Longrightarrow> currentView m \<noteq> quitView \<Longrightarrow>
   prefix (remdups_adj (map screen (states B m evs)))
     (dropWhile (\<lambda>s. s \<noteq> screen m) wizardPath)"
proof (induction evs arbitrary: m)
  case Nil
  then show ?case
    by (cases "currentView m") (simp_all add: screen_def wizardPath_def)
next
  case (Cons e evs)
  let ?m' = "fst (Update B (fst e) (snd e) m)"
  obtain rest where rest: "states B ?m' evs = ?m' # rest"
    using states_head by blast
  have inv': "currentView ?m' = homeView \<longrightarrow> csvFilePath ?m' = []"
    using Cons.prems(1) by (rule Update_home_inv)
  have nq: "currentView ?m' \<noteq> quitView"
    using Cons.prems(2) Update_view [of B "fst e" "snd e" m] by auto
  note IH = Cons.IH [OF inv' nq, unfolded rest]
  from screen_step [OF Cons.prems(1), of B "fst e" "snd e"]
  consider "screen ?m' = screen m"
    | "screen m = Home" "screen ?m' = FileSelectionA"
    | "screen m = FileSelectionA" "screen ?m' = FileSelectionB"
    | "screen m = FileSelectionB" "screen ?m' = SubjectInput"
    | "screen m = SubjectInput" "screen ?m' = Confirmation"
    | "screen m = Confirmation" "screen ?m' = Progress"
    by blast
  then show ?case
  proof cases
    case 1
    with IH show ?thesis by (simp add: rest)
  next
    case 2
    with IH show ?thesis by (simp add: rest wizardPath_def)
  next
    case 3
    with IH show ?thesis by (simp add: rest wizardPath_def)
  next
    case 4
    with IH show ?thesis by (simp add: rest wizardPath_def)
  next
    case 5
    with IH show ?thesis by (simp add: rest wizardPath_def)
  next
    case 6
    with IH show ?thesis by (simp add: rest wizardPath_def)
  qed
qed

text \<open>
  C1. For every sequence of events, with or without quit keys, the screens the wizard
  passes through from the initial session, each counted once however long it stays, form an
  initial segment of Home, FileSelection stage A (\<open>csvFilePath\<close> empty), FileSelection
  stage B (\<open>csvFilePath\<close> set), SubjectInput, Confirmation, Progress: no screen is
  skipped, none is entered a second time, none is visited out of this order. A run that
  goes all the way passes through exactly these six.
\<close>

theorem screens_in_wizard_order:
  "prefix (remdups_adj (map screen (states B (initialModel homeList csvFp htmlFp ti pr dir) evs)))
     wizardPath"
  using screens_follow_path [of "initialModel homeList csvFp htmlFp ti pr dir" B evs]
  by (simp add: initialModel_def screen_def wizardPath_def)

theorem screens_in_wizard_order_witness:
  "prefix (remdups_adj (map screen (states simpleBubbles simpleModel
      [press ''j'', press ''k'', pressEnter, press ''tab'', pressEnter, pressEnter,
       type_runes ''Welcome'', pressEnter, press ''down'', press ''up'', pressEnter,
       tickAt 1000]))) wizardPath
   \<and> remdups_adj (map screen (states simpleBubbles simpleModel
      [press ''j'', press ''k'', pressEnter, press ''tab'', pressEnter, pressEnter,
       type_runes ''Welcome'', pressEnter, press ''down'', press ''up'', pressEnter,
       tickAt 1000])) = wizardPath"
  using screens_in_wizard_order [of simpleBubbles 0 "''data.csv''" "''tpl.html''" "[]"
      "\<lparr>Width = 40, barState = 0\<rparr>" "''/home/u''"
      "[press ''j'', press ''k'', pressEnter, press ''tab'', pressEnter, pressEnter,
       type_runes ''Welcome'', pressEnter, press ''down'', press ''up'', pressEnter,
       tickAt 1000]"]
  by (simp add: simple_defs screen_def wizardPath_def IsZero_def Since_def Sub_def
      maxDuration_def minDuration_def Second_def Millisecond_def)

section \<open>The quit keys\<close>

text \<open>
  C2, as stated, fails on the progress screen: there the switch on the screen returns
  (lines 165-169) before the quit keys are tested (lines 172-176), so \<open>q\<close> neither sets
  \<open>quitting\<close> nor asks the loop to stop.
\<close>

theorem quit_key_on_progress_counterexample:
  "currentView atProgress = progressView
   \<and> keyString qKey = ''q''
   \<and> \<not> quitting (fst (Update simpleBubbles noClock (KeyMsg qKey) atProgress))
   \<and> \<not> requestsQuit (snd (Update simpleBubbles noClock (KeyMsg qKey) atProgress))"
  by (simp add: atProgress_eq atConfirmation_eq simpleModel_def initialModel_def qKey_def
      Update_key_progress)

text \<open>
  C2, amended. On the home, file selection, subject input and confirmation screens a
  \<open>q\<close> or \<open>ctrl+c\<close> key event sets \<open>quitting\<close> and makes the loop stop, before the
  menu list or the screen's handler sees the event: nothing else in the session changes. On
  the progress screen the key increments \<open>tag\<close> and arms a 5-second timer that delivers
  \<open>exitMsg\<close> with the new tag; when that message arrives on the progress screen with the
  tag unchanged, \<open>quitting\<close> is set and the loop stops.
\<close>

theorem quit_key_by_screen:
  "keyString k = ''q'' \<or> keyString k = ''ctrl+c'' \<Longrightarrow>
   (currentView m \<in> {homeView, fileSelectionView, subjectInputView, confirmationView} \<longrightarrow>
      Update B clk (KeyMsg k) m = (m\<lparr>quitting := True\<rparr>, Quit)
      \<and> run B m ((clk, KeyMsg k) # es) = Some (m\<lparr>quitting := True\<rparr>))
   \<and> (currentView m = progressView \<longrightarrow>
      Update B clk (KeyMsg k) m
        = (m\<lparr>tag := tag m + 1\<rparr>, Tick (5 * Second) (\<lambda>_. exitMsg (tag m + 1)))
      \<and> Update B clk' (exitMsg (tag m + 1)) (m\<lparr>tag := tag m + 1\<rparr>)
        = (m\<lparr>tag := tag m + 1, quitting := True\<rparr>, Quit)
      \<and> run B m ((clk, KeyMsg k) # (clk', exitMsg (tag m + 1)) # es)
        = Some (m\<lparr>tag := tag m + 1, quitting := True\<rparr>))"
proof -
  assume k: "keyString k = ''q'' \<or> keyString k = ''ctrl+c''"
  have early: "Update B clk (KeyMsg k) m = (m\<lparr>quitting := True\<rparr>, Quit)"
    if "currentView m \<in> {homeView, fileSelectionView, subjectInputView, confirmationView}"
    using that k by (auto simp add: Update_def Update_quit_def)
  have late: "Update B clk' (exitMsg (tag m + 1)) (m\<lparr>tag := tag m + 1\<rparr>)
        = (m\<lparr>tag := tag m + 1, quitting := True\<rparr>, Quit)"
    if "currentView m = progressView"
    using that Update_exit_progress [of "m\<lparr>tag := tag m + 1\<rparr>" B clk'] by simp
  show ?thesis
    using early late
    by (simp add: Update_key_progress debounceDuration_def mult.commute)
qed

theorem quit_key_by_screen_witness:
  "keyString qKey = ''q''
   \<and> currentView atSubjectInput = subjectInputView
   \<and> Update simpleBubbles noClock (KeyMsg qKey) atSubjectInput
       = (atSubjectInput\<lparr>quitting := True\<rparr>, Quit)
   \<and> currentView atProgress = progressView
   \<and> run simpleBubbles atProgress [(noClock, KeyMsg qKey), (noClock, exitMsg 1)]
       = Some (atProgress\<lparr>tag := 1, quitting := True\<rparr>)"
  using quit_key_by_screen [of qKey atSubjectInput simpleBubbles noClock "[]" noClock]
    quit_key_by_screen [of qKey atProgress simpleBubbles noClock "[]" noClock]
  by (simp add: qKey_def atSubjectInput_eq atProgress_eq atConfirmation_eq simpleModel_def
      initialModel_def)


section \<open>The earlier variant\<close>

text \<open>
  In the earlier variant the quit keys are tested before the switch on the screen, so they
  quit at once from every screen, the progress screen included.
\<close>

lemma legacy_quit_key_every_screen:
  "keyString k = ''q'' \<or> keyString k = ''ctrl+c'' \<Longrightarrow>
   Update_legacy B clk (KeyMsg k) m = (m\<lparr>quitting := True\<rparr>, Quit)"
  by (auto simp add: Update_legacy_def)

lemma legacy_paths:
  "csvFilePath m \<noteq> [] \<Longrightarrow> csvFilePath (fst (Update_legacy B clk ms m)) = csvFilePath m"
  "csvFilePath m = [] \<Longrightarrow> htmlFilePath (fst (Update_legacy B clk ms m)) = htmlFilePath m"
  by (simp_all add: Update_legacy_def updateFileSelection_legacy_def bothPickers_def
      forwardToPicker_def updateProgress_legacy_def updateSubjectInput_frame
      updateConfirmation_frame Let_def split_beta split: msg.splits view.splits)

end
